theory Spec2Isabelle
  imports Main
begin

section \<open>Python values and exceptions\<close>

text \<open>
  The values that travel through \<^verbatim>\<open>amieclient/usage.py\<close>: what \<^verbatim>\<open>json.loads\<close>
  produces (None, booleans, integers, strings, lists, dictionaries with string keys) and
  tuples, which the record constructor creates. A dictionary is an association list in
  insertion order, read with \<open>map_of\<close>. A string is the list of the bytes of its UTF-8
  encoding, so an ASCII string is the list of its characters.
\<close>

datatype pyval =
    PNone
  | PBool bool
  | PInt int
  | PStr string
  | PTuple "pyval list"
  | PList "pyval list"
  | PDict "(string \<times> pyval) list"

text \<open>
  Every exception the module can raise is a value; \<open>Inl\<close> carries it to the caller,
  since nothing in the module has a \<^verbatim>\<open>try\<close>.
\<close>

datatype error =
    KeyError string
  | TypeError
  | AttributeError string
  | NameError string
  | ValueError
  | UsageMessageException string

definition bnd :: "error + 'a \<Rightarrow> ('a \<Rightarrow> error + 'b) \<Rightarrow> error + 'b" where
  "bnd m f = (case m of Inl e \<Rightarrow> Inl e | Inr v \<Rightarrow> f v)"

text \<open>\<^verbatim>\<open>obj[key]\<close> with a string key: only a dictionary can be subscripted by a string.\<close>

fun getitem :: "pyval \<Rightarrow> string \<Rightarrow> error + pyval" where
  "getitem (PDict kvs) k = (case map_of kvs k of None \<Rightarrow> Inl (KeyError k) | Some v \<Rightarrow> Inr v)"
| "getitem _ k = Inl TypeError"

text \<open>\<^verbatim>\<open>obj.get(key)\<close>: None for a missing key; only a dictionary has the method.\<close>

fun dict_get :: "pyval \<Rightarrow> string \<Rightarrow> error + pyval" where
  "dict_get (PDict kvs) k = (case map_of kvs k of None \<Rightarrow> Inr PNone | Some v \<Rightarrow> Inr v)"
| "dict_get _ k = Inl (AttributeError ''get'')"

text \<open>\<^verbatim>\<open>d[k] = v\<close>: an existing key keeps its place, a new key goes to the end.\<close>

fun dict_setitem :: "(string \<times> pyval) list \<Rightarrow> string \<Rightarrow> pyval \<Rightarrow> (string \<times> pyval) list" where
  "dict_setitem [] k v = [(k, v)]"
| "dict_setitem ((k', v') # d) k v =
     (if k' = k then (k, v) # d else (k', v') # dict_setitem d k v)"

section \<open>ComputeUsageRecord\<close>

text \<open>
  The named tuple \<^verbatim>\<open>UsageAttributes\<close> and the instance attributes that
  \<^verbatim>\<open>ComputeUsageRecord.__init__\<close> assigns.
\<close>

record UsageAttributes =
  node_count :: pyval
  cpu_core_count :: pyval
  job_name :: pyval
  memory :: pyval
  queue :: pyval

record ComputeUsageRecord =
  attributes :: UsageAttributes
  parent_record_id :: pyval
  charge :: pyval
  end_time :: pyval
  local_project_id :: pyval
  local_record_id :: pyval
  resource :: pyval
  start_time :: pyval
  submit_time :: pyval
  username :: pyval

text \<open>
  \<^verbatim>\<open>__init__\<close>, its keyword arguments in the order of the signature. The assignment
  \<^verbatim>\<open>self.parent_record_id = parent_record_id,\<close> ends in a comma, so what is stored is the
  one-element tuple. No argument is inspected, so the constructor cannot raise.
\<close>

definition ComputeUsageRecord_init ::
  "pyval \<Rightarrow> pyval \<Rightarrow> pyval \<Rightarrow> pyval \<Rightarrow> pyval \<Rightarrow> pyval \<Rightarrow> pyval \<Rightarrow> pyval \<Rightarrow> pyval \<Rightarrow> pyval
     \<Rightarrow> pyval \<Rightarrow> pyval \<Rightarrow> pyval \<Rightarrow> pyval \<Rightarrow> ComputeUsageRecord" where
  "ComputeUsageRecord_init a_parent_record_id a_queue a_cpu_core_count a_job_name a_memory
       a_charge a_end_time a_local_project_id a_local_record_id a_resource a_start_time
       a_submit_time a_username a_node_count =
     \<lparr> attributes = \<lparr> node_count = a_node_count, cpu_core_count = a_cpu_core_count,
                       job_name = a_job_name, memory = a_memory, queue = a_queue \<rparr>,
       parent_record_id = PTuple [a_parent_record_id],
       charge = a_charge,
       end_time = a_end_time,
       local_project_id = a_local_project_id,
       local_record_id = a_local_record_id,
       resource = a_resource,
       start_time = a_start_time,
       submit_time = a_submit_time,
       username = a_username \<rparr>"

text \<open>
  \<^verbatim>\<open>from_dict\<close>: the keyword arguments are evaluated from left to right, so the first
  failing lookup decides the exception.
\<close>

definition ComputeUsageRecord_from_dict :: "pyval \<Rightarrow> error + ComputeUsageRecord" where
  "ComputeUsageRecord_from_dict input_dict =
     bnd (getitem input_dict ''Username'') (\<lambda>v_username.
     bnd (getitem input_dict ''LocalProjectID'') (\<lambda>v_local_project_id.
     bnd (getitem input_dict ''LocalRecordID'') (\<lambda>v_local_record_id.
     bnd (getitem input_dict ''Resource'') (\<lambda>v_resource.
     bnd (getitem input_dict ''SubmitTime'') (\<lambda>v_submit_time.
     bnd (getitem input_dict ''StartTime'') (\<lambda>v_start_time.
     bnd (getitem input_dict ''EndTime'') (\<lambda>v_end_time.
     bnd (getitem input_dict ''Charge'') (\<lambda>v_charge.
     bnd (bnd (getitem input_dict ''Attributes'') (\<lambda>a. getitem a ''NodeCount'')) (\<lambda>v_node_count.
     bnd (bnd (getitem input_dict ''Attributes'') (\<lambda>a. dict_get a ''CpuCoreCount'')) (\<lambda>v_cpu_core_count.
     bnd (bnd (getitem input_dict ''Attributes'') (\<lambda>a. dict_get a ''JobName'')) (\<lambda>v_job_name.
     bnd (bnd (getitem input_dict ''Attributes'') (\<lambda>a. dict_get a ''Memory'')) (\<lambda>v_memory.
     bnd (bnd (getitem input_dict ''Attributes'') (\<lambda>a. dict_get a ''Queue'')) (\<lambda>v_queue.
     bnd (dict_get input_dict ''ParentRecordID'') (\<lambda>v_parent_record_id.
     Inr (ComputeUsageRecord_init v_parent_record_id v_queue v_cpu_core_count v_job_name
            v_memory v_charge v_end_time v_local_project_id v_local_record_id v_resource
            v_start_time v_submit_time v_username v_node_count)))))))))))))))"

text \<open>
  \<^verbatim>\<open>self.attributes._asdict().items()\<close>: the fields of the named tuple under their
  Python field names, in declaration order.
\<close>

definition UsageAttributes_asdict :: "UsageAttributes \<Rightarrow> (string \<times> pyval) list" where
  "UsageAttributes_asdict a =
     [(''node_count'', node_count a), (''cpu_core_count'', cpu_core_count a),
      (''job_name'', job_name a), (''memory'', memory a), (''queue'', queue a)]"

text \<open>The loop of \<^verbatim>\<open>as_dict\<close> that copies every item whose value is not None.\<close>

fun collect_attributes ::
  "(string \<times> pyval) list \<Rightarrow> (string \<times> pyval) list \<Rightarrow> (string \<times> pyval) list" where
  "collect_attributes acc [] = acc"
| "collect_attributes acc ((k, v) # kvs) =
     collect_attributes (if v \<noteq> PNone then dict_setitem acc k v else acc) kvs"

definition ComputeUsageRecord_as_dict :: "ComputeUsageRecord \<Rightarrow> pyval" where
  "ComputeUsageRecord_as_dict self =
     (let attrs = collect_attributes [] (UsageAttributes_asdict (attributes self));
          d = [(''Username'', username self),
               (''LocalProjectID'', local_project_id self),
               (''LocalRecordID'', local_record_id self),
               (''Resource'', resource self),
               (''SubmitTime'', submit_time self),
               (''StartTime'', start_time self),
               (''EndTime'', end_time self),
               (''Charge'', charge self),
               (''Attributes'', PDict attrs)]
      in if parent_record_id self \<noteq> PNone
         then PDict (dict_setitem d ''ParentRecordID'' (parent_record_id self))
         else PDict d)"

section \<open>Strings\<close>

text \<open>
  \<^verbatim>\<open>str.lower\<close> and \<^verbatim>\<open>str.capitalize\<close> are builtins of Python, not code of the module,
  and they follow the Unicode case tables. What is written out here is what they do on an
  ASCII string (\<^verbatim>\<open>str.isascii\<close>): \<open>lower\<close> maps the 26 capital letters to the small
  ones, \<open>capitalize\<close> makes the first character a capital and the rest small, and every
  other character is left as it is. On a string with a character beyond ASCII the two
  tables say nothing about Python; there the builtins are parameters of the constructor.
\<close>

definition is_ascii :: "string \<Rightarrow> bool" where
  "is_ascii s = list_all (\<lambda>c. of_char c < (128::nat)) s"

definition upper_letters :: string where
  "upper_letters = ''ABCDEFGHIJKLMNOPQRSTUVWXYZ''"

definition lower_letters :: string where
  "lower_letters = ''abcdefghijklmnopqrstuvwxyz''"

definition lower_char :: "char \<Rightarrow> char" where
  "lower_char c = (case map_of (zip upper_letters lower_letters) c of None \<Rightarrow> c | Some l \<Rightarrow> l)"

definition upper_char :: "char \<Rightarrow> char" where
  "upper_char c = (case map_of (zip lower_letters upper_letters) c of None \<Rightarrow> c | Some u \<Rightarrow> u)"

definition str_lower :: "string \<Rightarrow> string" where
  "str_lower s = map lower_char s"

definition str_capitalize :: "string \<Rightarrow> string" where
  "str_capitalize s = (case s of [] \<Rightarrow> [] | c # cs \<Rightarrow> upper_char c # map lower_char cs)"

section \<open>UsageMessage\<close>

text \<open>
  An instance of \<^verbatim>\<open>UsageMessage\<close> is its attribute dictionary, restricted to the two
  attributes the methods of the class read: \<open>None\<close> says that the attribute has not been
  assigned on the instance. The class defines neither name, so reading an unassigned one
  raises \<^verbatim>\<open>AttributeError\<close>.
\<close>

record UsageMessage =
  records :: "ComputeUsageRecord list option"
  usage_type :: "pyval option"

definition getattr_records :: "UsageMessage \<Rightarrow> error + ComputeUsageRecord list" where
  "getattr_records self =
     (case records self of None \<Rightarrow> Inl (AttributeError ''records'') | Some rs \<Rightarrow> Inr rs)"

definition getattr_usage_type :: "UsageMessage \<Rightarrow> error + pyval" where
  "getattr_usage_type self =
     (case usage_type self of None \<Rightarrow> Inl (AttributeError ''usage_type'') | Some ut \<Rightarrow> Inr ut)"

text \<open>
  \<^verbatim>\<open>__init__\<close>: the normalised usage type \<^verbatim>\<open>ut\<close> is a local variable that is checked
  and then dropped; the only assignment is \<^verbatim>\<open>self.records = records\<close>. A usage type that
  is not a string has no \<^verbatim>\<open>lower\<close> method. The two string builtins that the body calls
  are the parameters \<open>lower\<close> and \<open>capitalize\<close>.
\<close>

definition valid_usage_types :: "string list" where
  "valid_usage_types = [''Compute'', ''Storage'', ''Adjustment'']"

definition UsageMessage_init_with ::
  "(string \<Rightarrow> string) \<Rightarrow> (string \<Rightarrow> string) \<Rightarrow> pyval \<Rightarrow> ComputeUsageRecord list
     \<Rightarrow> error + UsageMessage" where
  "UsageMessage_init_with lower capitalize a_usage_type a_records =
     (case a_usage_type of
        PStr s \<Rightarrow>
          (let ut = capitalize (lower s)
           in if ut \<notin> set valid_usage_types
              then Inl (UsageMessageException (''Invalid usage type '' @ ut))
              else Inr \<lparr> records = Some a_records, usage_type = None \<rparr>)
      | _ \<Rightarrow> Inl (AttributeError ''lower''))"

text \<open>The constructor with the builtins as they are on ASCII strings.\<close>

definition UsageMessage_init :: "pyval \<Rightarrow> ComputeUsageRecord list \<Rightarrow> error + UsageMessage" where
  "UsageMessage_init a_usage_type a_records =
     UsageMessage_init_with str_lower str_capitalize a_usage_type a_records"

text \<open>
  The names bound at the top level of the module: two imports, the named tuple and the
  three classes. A name that is neither here nor a builtin raises \<^verbatim>\<open>NameError\<close> when
  it is read.
\<close>

definition module_globals :: "string list" where
  "module_globals = [''json'', ''namedtuple'', ''UsageAttributes'', ''ComputeUsageRecord'',
                     ''UsageMessageException'', ''UsageMessage'']"

definition load_global :: "string \<Rightarrow> error + string" where
  "load_global name = (if name \<in> set module_globals then Inr name else Inl (NameError name))"

text \<open>
  \<^verbatim>\<open>X.from_dict(d)\<close> for a global \<open>X\<close> that is used as the record class: of the bound
  names that build records, only \<^verbatim>\<open>ComputeUsageRecord\<close> has the method.
\<close>

definition call_from_dict :: "string \<Rightarrow> pyval \<Rightarrow> error + ComputeUsageRecord" where
  "call_from_dict cls d =
     (if cls = ''ComputeUsageRecord'' then ComputeUsageRecord_from_dict d
      else Inl (AttributeError ''from_dict''))"

text \<open>Iterating a value: a dictionary yields its keys, a string its characters.\<close>

fun py_iter :: "pyval \<Rightarrow> error + pyval list" where
  "py_iter (PList xs) = Inr xs"
| "py_iter (PTuple xs) = Inr xs"
| "py_iter (PDict kvs) = Inr (map (\<lambda>kv. PStr (fst kv)) kvs)"
| "py_iter (PStr s) = Inr (map (\<lambda>c. PStr [c]) s)"
| "py_iter _ = Inl TypeError"

text \<open>
  The comprehension \<^verbatim>\<open>[UsageRecord.from_dict(d) for d in ...]\<close>: the name
  \<^verbatim>\<open>UsageRecord\<close> is looked up once for every element, so an empty sequence never
  reads it.
\<close>

fun records_comprehension :: "pyval list \<Rightarrow> error + ComputeUsageRecord list" where
  "records_comprehension [] = Inr []"
| "records_comprehension (d # ds) =
     bnd (load_global ''UsageRecord'') (\<lambda>cls.
     bnd (call_from_dict cls d) (\<lambda>r.
     bnd (records_comprehension ds) (\<lambda>rs. Inr (r # rs))))"

definition UsageMessage_from_dict :: "pyval \<Rightarrow> error + UsageMessage" where
  "UsageMessage_from_dict input_dict =
     bnd (getitem input_dict ''UsageType'') (\<lambda>ut.
     bnd (getitem input_dict ''Records'') (\<lambda>rs.
     bnd (py_iter rs) (\<lambda>ds.
     bnd (records_comprehension ds) (\<lambda>recs.
     UsageMessage_init ut recs))))"

text \<open>\<^verbatim>\<open>as_dict\<close>: the dictionary display reads \<^verbatim>\<open>self.usage_type\<close> first.\<close>

definition UsageMessage_as_dict :: "UsageMessage \<Rightarrow> error + pyval" where
  "UsageMessage_as_dict self =
     bnd (getattr_usage_type self) (\<lambda>ut.
     bnd (getattr_records self) (\<lambda>rs.
     Inr (PDict [(''UsageType'', ut),
                 (''Records'', PList (map ComputeUsageRecord_as_dict rs))])))"

section \<open>Chunking\<close>

text \<open>
  \<^verbatim>\<open>_chunked\<close> creates new message objects while it reads the source, so objects live
  in a store: a list of instances, an address being an index and a new object going to
  the end. Running the generator to its end gives the store afterwards, the addresses of
  the messages it yielded, and the exception that ended it, if one did.
\<close>

type_synonym heap = "UsageMessage list"

text \<open>
  One turn of the loop body at index \<open>i\<close>: the slice \<^verbatim>\<open>self.records[i:i+chunk_size]\<close>,
  then \<^verbatim>\<open>self.__class__(self.usage_type, r)\<close>.
\<close>

definition chunk_step :: "heap \<Rightarrow> nat \<Rightarrow> nat \<Rightarrow> nat \<Rightarrow> error + UsageMessage" where
  "chunk_step h self c i =
     bnd (getattr_records (h ! self)) (\<lambda>rs.
     bnd (getattr_usage_type (h ! self)) (\<lambda>ut.
     UsageMessage_init ut (take c (drop i rs))))"

function chunked_loop :: "heap \<Rightarrow> nat \<Rightarrow> nat \<Rightarrow> nat \<Rightarrow> nat \<Rightarrow> heap \<times> nat list \<times> error option" where
  "chunked_loop h self n c i =
     (if 0 < c \<and> i < n then
        (case chunk_step h self c i of
           Inl e \<Rightarrow> (h, [], Some e)
         | Inr m \<Rightarrow>
             (case chunked_loop (h @ [m]) self n c (i + c) of
                (h', ys, r) \<Rightarrow> (h', length h # ys, r)))
      else (h, [], None))"
  by pat_completeness auto
termination
  by (relation "measure (\<lambda>(h, self, n, c, i). n - i)") auto

declare chunked_loop.simps [simp del]

text \<open>
  \<^verbatim>\<open>range(0, len(self.records), chunk_size)\<close> is built once, before the first turn: a
  step of zero raises \<^verbatim>\<open>ValueError\<close>, a negative step gives the empty range.
\<close>

definition UsageMessage_chunked :: "heap \<Rightarrow> nat \<Rightarrow> int \<Rightarrow> heap \<times> nat list \<times> error option" where
  "UsageMessage_chunked h self chunk_size =
     (case getattr_records (h ! self) of
        Inl e \<Rightarrow> (h, [], Some e)
      | Inr rs \<Rightarrow>
          if chunk_size = 0 then (h, [], Some ValueError)
          else if chunk_size < 0 then (h, [], None)
          else chunked_loop h self (length rs) (nat chunk_size) 0)"

section \<open>Keys that \<open>from_dict\<close> subscripts\<close>

text \<open>
  The top-level keys that \<^verbatim>\<open>ComputeUsageRecord.from_dict\<close> reads with
  \<^verbatim>\<open>input_dict[...]\<close>, in the order it reads them.
\<close>

definition required_keys :: "string list" where
  "required_keys = [''Username'', ''LocalProjectID'', ''LocalRecordID'', ''Resource'',
                    ''SubmitTime'', ''StartTime'', ''EndTime'', ''Charge'', ''Attributes'']"

section \<open>Basic facts\<close>

lemma bnd_Inr [simp]: "bnd (Inr v) f = f v"
  by (simp add: bnd_def)

lemma bnd_Inl [simp]: "bnd (Inl e) f = Inl e"
  by (simp add: bnd_def)

lemma keys_dict_setitem: "fst ` set (dict_setitem d k v) = insert k (fst ` set d)"
  by (induction d k v rule: dict_setitem.induct) auto

lemma map_of_dict_setitem:
  "map_of (dict_setitem d k v) k' = (if k' = k then Some v else map_of d k')"
  by (induction d k v rule: dict_setitem.induct) auto

lemma keys_collect_attributes:
  "fst ` set (collect_attributes acc kvs) \<subseteq> fst ` set acc \<union> fst ` set kvs"
proof (induction acc kvs rule: collect_attributes.induct)
  case (1 acc)
  then show ?case by simp
next
  case (2 acc k v kvs)
  then show ?case by (auto simp: keys_dict_setitem split: if_splits)
qed

text \<open>The attribute dictionary of \<open>as_dict\<close> has no key but the five Python field names.\<close>

lemma attributes_only_field_names:
  assumes "k \<notin> {''node_count'', ''cpu_core_count'', ''job_name'', ''memory'', ''queue''}"
  shows "map_of (collect_attributes [] (UsageAttributes_asdict a)) k = None"
proof -
  have "fst ` set (collect_attributes [] (UsageAttributes_asdict a))
          \<subseteq> fst ` set (UsageAttributes_asdict a)"
    using keys_collect_attributes [of "[]" "UsageAttributes_asdict a"] by simp
  also have "\<dots> = {''node_count'', ''cpu_core_count'', ''job_name'', ''memory'', ''queue''}"
    by (simp add: UsageAttributes_asdict_def)
  finally have "k \<notin> fst ` set (collect_attributes [] (UsageAttributes_asdict a))"
    using assms by blast
  then show ?thesis by (simp add: map_of_eq_None_iff)
qed

section \<open>Records: serialisation and parsing\<close>

text \<open>
  C1. The round trip \<^verbatim>\<open>from_dict(record.as_dict)\<close> is claimed to succeed and to give back
  the same dictionary. In the code it fails for every record the constructor builds:
  \<open>as_dict\<close> writes the attributes under the Python field names (\<^verbatim>\<open>node_count\<close>, ...),
  while \<open>from_dict\<close> subscripts \<^verbatim>\<open>Attributes\<close> with \<^verbatim>\<open>NodeCount\<close>, so the lookup raises
  \<^verbatim>\<open>KeyError\<close>.
\<close>

theorem as_dict_from_dict_raises:
  "ComputeUsageRecord_from_dict
     (ComputeUsageRecord_as_dict
        (ComputeUsageRecord_init p q c j m ch e lp lr rs st sb u n))
   = Inl (KeyError ''NodeCount'')"
  by (simp add: ComputeUsageRecord_from_dict_def ComputeUsageRecord_as_dict_def
        ComputeUsageRecord_init_def Let_def map_of_dict_setitem attributes_only_field_names)

text \<open>
  C2. The \<^verbatim>\<open>Attributes\<close> of \<^verbatim>\<open>from_dict(d).as_dict\<close> are claimed to carry the wire-format
  key names. For a dictionary with \<^verbatim>\<open>NodeCount\<close> and \<^verbatim>\<open>Queue\<close> the code answers with the
  keys \<^verbatim>\<open>node_count\<close> and \<^verbatim>\<open>queue\<close>: the values are kept and the absent attributes are
  left out, but the names are the field names of the named tuple.
\<close>

theorem from_dict_as_dict_attribute_keys:
  "bnd (ComputeUsageRecord_from_dict
          (PDict [(''Username'', PStr ''alice''), (''LocalProjectID'', PStr ''P1''),
                  (''LocalRecordID'', PStr ''42''), (''Resource'', PStr ''cluster''),
                  (''SubmitTime'', PStr ''t0''), (''StartTime'', PStr ''t1''),
                  (''EndTime'', PStr ''t2''), (''Charge'', PStr ''10''),
                  (''Attributes'',
                     PDict [(''NodeCount'', PStr ''4''), (''Queue'', PStr ''normal'')])]))
       (\<lambda>r. getitem (ComputeUsageRecord_as_dict r) ''Attributes'')
   = Inr (PDict [(''node_count'', PStr ''4''), (''queue'', PStr ''normal'')])"
  by (simp add: ComputeUsageRecord_from_dict_def ComputeUsageRecord_as_dict_def
        ComputeUsageRecord_init_def Let_def UsageAttributes_asdict_def)

text \<open>
  C3. \<^verbatim>\<open>ParentRecordID\<close> is claimed to be in \<open>as_dict\<close> exactly when a parent record id
  other than None was given, with that value. The constructor stores a one-element tuple,
  which is never None: the key is always there, also for \<open>p = PNone\<close>, and its value is
  the tuple around the argument.
\<close>

theorem parent_record_id_always_tuple:
  "getitem (ComputeUsageRecord_as_dict
              (ComputeUsageRecord_init p q c j m ch e lp lr rs st sb u n)) ''ParentRecordID''
   = Inr (PTuple [p])"
  by (simp add: ComputeUsageRecord_as_dict_def ComputeUsageRecord_init_def Let_def
        map_of_dict_setitem)

text \<open>
  C10. The constructor checks nothing: it is a total function, and a record built with
  \<^verbatim>\<open>node_count=None\<close> serialises to a dictionary whose \<^verbatim>\<open>Attributes\<close> have no entry for
  the node count, under the field name or under the wire name.
\<close>

theorem node_count_none_omitted:
  "\<exists>a. getitem (ComputeUsageRecord_as_dict
                  (ComputeUsageRecord_init p q c j m ch e lp lr rs st sb u PNone))
           ''Attributes'' = Inr (PDict a)
       \<and> map_of a ''node_count'' = None \<and> map_of a ''NodeCount'' = None"
proof -
  let ?r = "ComputeUsageRecord_init p q c j m ch e lp lr rs st sb u PNone"
  let ?a = "collect_attributes [] (UsageAttributes_asdict (attributes ?r))"
  let ?rest = "[(''cpu_core_count'', c), (''job_name'', j), (''memory'', m), (''queue'', q)]"
  have g: "getitem (ComputeUsageRecord_as_dict ?r) ''Attributes'' = Inr (PDict ?a)"
    by (simp add: ComputeUsageRecord_as_dict_def ComputeUsageRecord_init_def Let_def
          map_of_dict_setitem)
  have eq: "?a = collect_attributes [] ?rest"
    by (simp add: UsageAttributes_asdict_def ComputeUsageRecord_init_def)
  have "fst ` set ?a \<subseteq> {''cpu_core_count'', ''job_name'', ''memory'', ''queue''}"
    unfolding eq using keys_collect_attributes [of "[]" ?rest] by simp
  then have "''node_count'' \<notin> fst ` set ?a" and "''NodeCount'' \<notin> fst ` set ?a"
    by auto
  then have "map_of ?a ''node_count'' = None" and "map_of ?a ''NodeCount'' = None"
    by (simp_all add: map_of_eq_None_iff)
  with g show ?thesis by blast
qed

section \<open>Messages: parsing and serialisation\<close>

lemmas char_tables = lower_char_def upper_char_def upper_letters_def lower_letters_def

text \<open>
  C4. \<^verbatim>\<open>UsageMessage.from_dict\<close> is claimed to succeed on a valid usage type with a sequence
  of valid record dictionaries. The comprehension reads the global \<^verbatim>\<open>UsageRecord\<close>, which
  the module never binds (the record class is \<^verbatim>\<open>ComputeUsageRecord\<close>): whatever the usage
  type and the record dictionaries are, a \<^verbatim>\<open>Records\<close> list with at least one entry
  raises \<^verbatim>\<open>NameError\<close>.
\<close>

theorem from_dict_records_name_error:
  "UsageMessage_from_dict (PDict [(''UsageType'', ut), (''Records'', PList (d # ds))])
     = Inl (NameError ''UsageRecord'')"
  by (simp add: UsageMessage_from_dict_def load_global_def module_globals_def)

text \<open>
  C5. For \<^verbatim>\<open>compute\<close> in three spellings, and for spellings of the other two usage
  types, the constructor succeeds, as claimed, but the message it builds has no
  \<^verbatim>\<open>usage_type\<close> attribute: the normalised form is not stored, and \<open>as_dict\<close>, where the
  claim wants to see it, raises \<^verbatim>\<open>AttributeError\<close>.
\<close>

theorem usage_type_not_stored:
  "UsageMessage_init (PStr ''compute'') recs = Inr \<lparr> records = Some recs, usage_type = None \<rparr>
   \<and> UsageMessage_init (PStr ''COMPUTE'') recs = Inr \<lparr> records = Some recs, usage_type = None \<rparr>
   \<and> UsageMessage_init (PStr ''Compute'') recs = Inr \<lparr> records = Some recs, usage_type = None \<rparr>
   \<and> UsageMessage_init (PStr ''sToRaGe'') recs = Inr \<lparr> records = Some recs, usage_type = None \<rparr>
   \<and> UsageMessage_init (PStr ''ADJUSTMENT'') recs = Inr \<lparr> records = Some recs, usage_type = None \<rparr>
   \<and> UsageMessage_as_dict \<lparr> records = Some recs, usage_type = None \<rparr>
       = Inl (AttributeError ''usage_type'')"
  by (simp add: UsageMessage_init_def UsageMessage_init_with_def Let_def valid_usage_types_def UsageMessage_as_dict_def
        getattr_usage_type_def str_capitalize_def str_lower_def char_tables)

section \<open>Chunking: what the generator does\<close>

text \<open>
  C6. Chunking a message of \<open>n\<close> records is claimed to yield \<open>ceil(n/c)\<close> messages. For a
  message built by the constructor with at least one record, the first turn of the loop
  reads \<^verbatim>\<open>self.usage_type\<close> and raises \<^verbatim>\<open>AttributeError\<close>: nothing is yielded and no
  object is created.
\<close>

theorem chunked_raises_on_first_chunk:
  "UsageMessage_init (PStr ''Compute'') (r # rs)
     = Inr \<lparr> records = Some (r # rs), usage_type = None \<rparr>
   \<and> UsageMessage_chunked [\<lparr> records = Some (r # rs), usage_type = None \<rparr>] 0 1000
       = ([\<lparr> records = Some (r # rs), usage_type = None \<rparr>], [],
          Some (AttributeError ''usage_type''))"
  by (simp add: UsageMessage_init_def UsageMessage_init_with_def Let_def valid_usage_types_def UsageMessage_chunked_def
        getattr_usage_type_def getattr_records_def chunked_loop.simps chunk_step_def
        str_capitalize_def str_lower_def char_tables)

text \<open>The loop only ever adds objects at the end of the store.\<close>

lemma chunked_loop_extends:
  "chunked_loop h self n c i = (h', ys, r) \<Longrightarrow> \<exists>ext. h' = h @ ext"
proof (induction h self n c i arbitrary: h' ys r rule: chunked_loop.induct)
  case (1 h self n c i)
  show ?case
  proof (cases "0 < c \<and> i < n")
    case False
    with "1.prems" show ?thesis by (simp add: chunked_loop.simps)
  next
    case True
    show ?thesis
    proof (cases "chunk_step h self c i")
      case (Inl e)
      with True "1.prems" show ?thesis by (simp add: chunked_loop.simps)
    next
      case (Inr m)
      obtain h2 ys2 r2 where rec: "chunked_loop (h @ [m]) self n c (i + c) = (h2, ys2, r2)"
        by (cases "chunked_loop (h @ [m]) self n c (i + c)") auto
      from "1.IH" [OF True Inr rec] obtain ext where "h2 = (h @ [m]) @ ext" by blast
      moreover from True Inr rec "1.prems" have "h' = h2"
        by (simp add: chunked_loop.simps [of h self n c i])
      ultimately show ?thesis by simp
    qed
  qed
qed

lemma chunked_extends:
  "UsageMessage_chunked h self c = (h', ys, r) \<Longrightarrow> \<exists>ext. h' = h @ ext"
  by (auto simp: UsageMessage_chunked_def split: sum.splits if_splits
        dest: chunked_loop_extends)

text \<open>
  C9. Running the generator to its end, whether it finishes or raises, leaves every object
  that was in the store as it was; in particular the source message has the same
  \<^verbatim>\<open>records\<close> and the same \<^verbatim>\<open>usage_type\<close> (assigned or not) as before.
\<close>

theorem chunked_leaves_source_unchanged:
  assumes "self < length h" and "UsageMessage_chunked h self c = (h', ys, r)"
  shows "take (length h) h' = h
       \<and> getattr_records (h' ! self) = getattr_records (h ! self)
       \<and> getattr_usage_type (h' ! self) = getattr_usage_type (h ! self)"
proof -
  from chunked_extends [OF assms(2)] obtain ext where "h' = h @ ext" by blast
  with assms(1) show ?thesis by (simp add: nth_append)
qed

text \<open>
  The witness of C9 runs two stores. In the first the source got its \<^verbatim>\<open>usage_type\<close>
  assigned after construction, so the generator runs to its end and creates two messages;
  in the second the source is as the constructor left it, and the generator raises.
\<close>

theorem chunked_leaves_source_unchanged_witness:
  "UsageMessage_chunked
     [\<lparr> records = Some [(ComputeUsageRecord_init PNone PNone PNone PNone PNone (PStr ''10'') (PStr ''t2'')
          (PStr ''P1'') (PStr ''1'') (PStr ''cluster'') (PStr ''t1'') (PStr ''t0'')
          (PStr ''alice'') (PStr ''4'')),
        (ComputeUsageRecord_init PNone PNone PNone PNone PNone (PStr ''10'') (PStr ''t2'')
          (PStr ''P1'') (PStr ''2'') (PStr ''cluster'') (PStr ''t1'') (PStr ''t0'')
          (PStr ''alice'') (PStr ''4'')),
        (ComputeUsageRecord_init PNone PNone PNone PNone PNone (PStr ''10'') (PStr ''t2'')
          (PStr ''P1'') (PStr ''3'') (PStr ''cluster'') (PStr ''t1'') (PStr ''t0'')
          (PStr ''alice'') (PStr ''4''))],
      usage_type = Some (PStr ''Compute'') \<rparr>] 0 2
   = ([\<lparr> records = Some [(ComputeUsageRecord_init PNone PNone PNone PNone PNone (PStr ''10'') (PStr ''t2'')
          (PStr ''P1'') (PStr ''1'') (PStr ''cluster'') (PStr ''t1'') (PStr ''t0'')
          (PStr ''alice'') (PStr ''4'')),
        (ComputeUsageRecord_init PNone PNone PNone PNone PNone (PStr ''10'') (PStr ''t2'')
          (PStr ''P1'') (PStr ''2'') (PStr ''cluster'') (PStr ''t1'') (PStr ''t0'')
          (PStr ''alice'') (PStr ''4'')),
        (ComputeUsageRecord_init PNone PNone PNone PNone PNone (PStr ''10'') (PStr ''t2'')
          (PStr ''P1'') (PStr ''3'') (PStr ''cluster'') (PStr ''t1'') (PStr ''t0'')
          (PStr ''alice'') (PStr ''4''))],
      usage_type = Some (PStr ''Compute'') \<rparr>,
       \<lparr> records = Some [(ComputeUsageRecord_init PNone PNone PNone PNone PNone (PStr ''10'') (PStr ''t2'')
          (PStr ''P1'') (PStr ''1'') (PStr ''cluster'') (PStr ''t1'') (PStr ''t0'')
          (PStr ''alice'') (PStr ''4'')),
        (ComputeUsageRecord_init PNone PNone PNone PNone PNone (PStr ''10'') (PStr ''t2'')
          (PStr ''P1'') (PStr ''2'') (PStr ''cluster'') (PStr ''t1'') (PStr ''t0'')
          (PStr ''alice'') (PStr ''4''))],
      usage_type = None \<rparr>,
       \<lparr> records = Some [(ComputeUsageRecord_init PNone PNone PNone PNone PNone (PStr ''10'') (PStr ''t2'')
          (PStr ''P1'') (PStr ''3'') (PStr ''cluster'') (PStr ''t1'') (PStr ''t0'')
          (PStr ''alice'') (PStr ''4''))],
      usage_type = None \<rparr>], [1, 2], None)
   \<and> take (length [\<lparr> records = Some [(ComputeUsageRecord_init PNone PNone PNone PNone PNone (PStr ''10'') (PStr ''t2'')
          (PStr ''P1'') (PStr ''1'') (PStr ''cluster'') (PStr ''t1'') (PStr ''t0'')
          (PStr ''alice'') (PStr ''4'')),
        (ComputeUsageRecord_init PNone PNone PNone PNone PNone (PStr ''10'') (PStr ''t2'')
          (PStr ''P1'') (PStr ''2'') (PStr ''cluster'') (PStr ''t1'') (PStr ''t0'')
          (PStr ''alice'') (PStr ''4'')),
        (ComputeUsageRecord_init PNone PNone PNone PNone PNone (PStr ''10'') (PStr ''t2'')
          (PStr ''P1'') (PStr ''3'') (PStr ''cluster'') (PStr ''t1'') (PStr ''t0'')
          (PStr ''alice'') (PStr ''4''))],
      usage_type = Some (PStr ''Compute'') \<rparr>])
       [\<lparr> records = Some [(ComputeUsageRecord_init PNone PNone PNone PNone PNone (PStr ''10'') (PStr ''t2'')
          (PStr ''P1'') (PStr ''1'') (PStr ''cluster'') (PStr ''t1'') (PStr ''t0'')
          (PStr ''alice'') (PStr ''4'')),
        (ComputeUsageRecord_init PNone PNone PNone PNone PNone (PStr ''10'') (PStr ''t2'')
          (PStr ''P1'') (PStr ''2'') (PStr ''cluster'') (PStr ''t1'') (PStr ''t0'')
          (PStr ''alice'') (PStr ''4'')),
        (ComputeUsageRecord_init PNone PNone PNone PNone PNone (PStr ''10'') (PStr ''t2'')
          (PStr ''P1'') (PStr ''3'') (PStr ''cluster'') (PStr ''t1'') (PStr ''t0'')
          (PStr ''alice'') (PStr ''4''))],
      usage_type = Some (PStr ''Compute'') \<rparr>,
        \<lparr> records = Some [(ComputeUsageRecord_init PNone PNone PNone PNone PNone (PStr ''10'') (PStr ''t2'')
          (PStr ''P1'') (PStr ''1'') (PStr ''cluster'') (PStr ''t1'') (PStr ''t0'')
          (PStr ''alice'') (PStr ''4'')),
        (ComputeUsageRecord_init PNone PNone PNone PNone PNone (PStr ''10'') (PStr ''t2'')
          (PStr ''P1'') (PStr ''2'') (PStr ''cluster'') (PStr ''t1'') (PStr ''t0'')
          (PStr ''alice'') (PStr ''4''))],
      usage_type = None \<rparr>,
        \<lparr> records = Some [(ComputeUsageRecord_init PNone PNone PNone PNone PNone (PStr ''10'') (PStr ''t2'')
          (PStr ''P1'') (PStr ''3'') (PStr ''cluster'') (PStr ''t1'') (PStr ''t0'')
          (PStr ''alice'') (PStr ''4''))],
      usage_type = None \<rparr>]
     = [\<lparr> records = Some [(ComputeUsageRecord_init PNone PNone PNone PNone PNone (PStr ''10'') (PStr ''t2'')
          (PStr ''P1'') (PStr ''1'') (PStr ''cluster'') (PStr ''t1'') (PStr ''t0'')
          (PStr ''alice'') (PStr ''4'')),
        (ComputeUsageRecord_init PNone PNone PNone PNone PNone (PStr ''10'') (PStr ''t2'')
          (PStr ''P1'') (PStr ''2'') (PStr ''cluster'') (PStr ''t1'') (PStr ''t0'')
          (PStr ''alice'') (PStr ''4'')),
        (ComputeUsageRecord_init PNone PNone PNone PNone PNone (PStr ''10'') (PStr ''t2'')
          (PStr ''P1'') (PStr ''3'') (PStr ''cluster'') (PStr ''t1'') (PStr ''t0'')
          (PStr ''alice'') (PStr ''4''))],
      usage_type = Some (PStr ''Compute'') \<rparr>]
   \<and> UsageMessage_chunked
       [\<lparr> records = Some [(ComputeUsageRecord_init PNone PNone PNone PNone PNone (PStr ''10'') (PStr ''t2'')
          (PStr ''P1'') (PStr ''1'') (PStr ''cluster'') (PStr ''t1'') (PStr ''t0'')
          (PStr ''alice'') (PStr ''4'')),
        (ComputeUsageRecord_init PNone PNone PNone PNone PNone (PStr ''10'') (PStr ''t2'')
          (PStr ''P1'') (PStr ''2'') (PStr ''cluster'') (PStr ''t1'') (PStr ''t0'')
          (PStr ''alice'') (PStr ''4'')),
        (ComputeUsageRecord_init PNone PNone PNone PNone PNone (PStr ''10'') (PStr ''t2'')
          (PStr ''P1'') (PStr ''3'') (PStr ''cluster'') (PStr ''t1'') (PStr ''t0'')
          (PStr ''alice'') (PStr ''4''))],
      usage_type = None \<rparr>] 0 2
     = ([\<lparr> records = Some [(ComputeUsageRecord_init PNone PNone PNone PNone PNone (PStr ''10'') (PStr ''t2'')
          (PStr ''P1'') (PStr ''1'') (PStr ''cluster'') (PStr ''t1'') (PStr ''t0'')
          (PStr ''alice'') (PStr ''4'')),
        (ComputeUsageRecord_init PNone PNone PNone PNone PNone (PStr ''10'') (PStr ''t2'')
          (PStr ''P1'') (PStr ''2'') (PStr ''cluster'') (PStr ''t1'') (PStr ''t0'')
          (PStr ''alice'') (PStr ''4'')),
        (ComputeUsageRecord_init PNone PNone PNone PNone PNone (PStr ''10'') (PStr ''t2'')
          (PStr ''P1'') (PStr ''3'') (PStr ''cluster'') (PStr ''t1'') (PStr ''t0'')
          (PStr ''alice'') (PStr ''4''))],
      usage_type = None \<rparr>], [], Some (AttributeError ''usage_type''))"
proof -
  let ?M = "\<lparr> records = Some [(ComputeUsageRecord_init PNone PNone PNone PNone PNone (PStr ''10'') (PStr ''t2'')
          (PStr ''P1'') (PStr ''1'') (PStr ''cluster'') (PStr ''t1'') (PStr ''t0'')
          (PStr ''alice'') (PStr ''4'')),
        (ComputeUsageRecord_init PNone PNone PNone PNone PNone (PStr ''10'') (PStr ''t2'')
          (PStr ''P1'') (PStr ''2'') (PStr ''cluster'') (PStr ''t1'') (PStr ''t0'')
          (PStr ''alice'') (PStr ''4'')),
        (ComputeUsageRecord_init PNone PNone PNone PNone PNone (PStr ''10'') (PStr ''t2'')
          (PStr ''P1'') (PStr ''3'') (PStr ''cluster'') (PStr ''t1'') (PStr ''t0'')
          (PStr ''alice'') (PStr ''4''))],
      usage_type = Some (PStr ''Compute'') \<rparr>"
  let ?A = "\<lparr> records = Some [(ComputeUsageRecord_init PNone PNone PNone PNone PNone (PStr ''10'') (PStr ''t2'')
          (PStr ''P1'') (PStr ''1'') (PStr ''cluster'') (PStr ''t1'') (PStr ''t0'')
          (PStr ''alice'') (PStr ''4'')),
        (ComputeUsageRecord_init PNone PNone PNone PNone PNone (PStr ''10'') (PStr ''t2'')
          (PStr ''P1'') (PStr ''2'') (PStr ''cluster'') (PStr ''t1'') (PStr ''t0'')
          (PStr ''alice'') (PStr ''4''))],
      usage_type = None \<rparr>"
  let ?B = "\<lparr> records = Some [(ComputeUsageRecord_init PNone PNone PNone PNone PNone (PStr ''10'') (PStr ''t2'')
          (PStr ''P1'') (PStr ''3'') (PStr ''cluster'') (PStr ''t1'') (PStr ''t0'')
          (PStr ''alice'') (PStr ''4''))],
      usage_type = None \<rparr>"
  let ?N = "\<lparr> records = Some [(ComputeUsageRecord_init PNone PNone PNone PNone PNone (PStr ''10'') (PStr ''t2'')
          (PStr ''P1'') (PStr ''1'') (PStr ''cluster'') (PStr ''t1'') (PStr ''t0'')
          (PStr ''alice'') (PStr ''4'')),
        (ComputeUsageRecord_init PNone PNone PNone PNone PNone (PStr ''10'') (PStr ''t2'')
          (PStr ''P1'') (PStr ''2'') (PStr ''cluster'') (PStr ''t1'') (PStr ''t0'')
          (PStr ''alice'') (PStr ''4'')),
        (ComputeUsageRecord_init PNone PNone PNone PNone PNone (PStr ''10'') (PStr ''t2'')
          (PStr ''P1'') (PStr ''3'') (PStr ''cluster'') (PStr ''t1'') (PStr ''t0'')
          (PStr ''alice'') (PStr ''4''))],
      usage_type = None \<rparr>"
  have run: "UsageMessage_chunked [?M] 0 2 = ([?M, ?A, ?B], [1, 2], None)"
    by (simp add: UsageMessage_init_def UsageMessage_init_with_def Let_def valid_usage_types_def UsageMessage_chunked_def
          getattr_usage_type_def getattr_records_def chunked_loop.simps chunk_step_def
          str_capitalize_def str_lower_def char_tables)
  have run0: "UsageMessage_chunked [?N] 0 2 = ([?N], [], Some (AttributeError ''usage_type''))"
    by (simp add: UsageMessage_chunked_def getattr_usage_type_def getattr_records_def
          chunked_loop.simps chunk_step_def)
  have "take (length [?M]) [?M, ?A, ?B] = [?M]"
    using chunked_leaves_source_unchanged [OF _ run] by simp
  with run run0 show ?thesis by simp
qed

section \<open>Usage type validation\<close>

lemma lower_char_idem: "lower_char (lower_char c) = lower_char c"
  by (simp add: char_tables)

lemma lower_upper_lower: "lower_char (upper_char (lower_char c)) = lower_char c"
  by (simp add: char_tables)

lemma lower_capitalize_lower: "str_lower (str_capitalize (str_lower s)) = str_lower s"
  by (cases s) (simp_all add: str_lower_def str_capitalize_def lower_char_idem lower_upper_lower)

text \<open>Normalising compares the lower-case form: the match ignores case.\<close>

lemma normalized_valid_iff:
  "str_capitalize (str_lower s) \<in> set valid_usage_types
     \<longleftrightarrow> str_lower s \<in> set [''compute'', ''storage'', ''adjustment'']"
proof
  assume "str_capitalize (str_lower s) \<in> set valid_usage_types"
  then consider "str_capitalize (str_lower s) = ''Compute''"
    | "str_capitalize (str_lower s) = ''Storage''"
    | "str_capitalize (str_lower s) = ''Adjustment''"
    by (auto simp: valid_usage_types_def)
  then show "str_lower s \<in> set [''compute'', ''storage'', ''adjustment'']"
  proof cases
    case 1
    then have "str_lower (str_capitalize (str_lower s)) = str_lower ''Compute''" by simp
    then have "str_lower s = ''compute''"
      by (simp add: lower_capitalize_lower) (simp add: str_lower_def char_tables)
    then show ?thesis by simp
  next
    case 2
    then have "str_lower (str_capitalize (str_lower s)) = str_lower ''Storage''" by simp
    then have "str_lower s = ''storage''"
      by (simp add: lower_capitalize_lower) (simp add: str_lower_def char_tables)
    then show ?thesis by simp
  next
    case 3
    then have "str_lower (str_capitalize (str_lower s)) = str_lower ''Adjustment''" by simp
    then have "str_lower s = ''adjustment''"
      by (simp add: lower_capitalize_lower) (simp add: str_lower_def char_tables)
    then show ?thesis by simp
  qed
next
  assume "str_lower s \<in> set [''compute'', ''storage'', ''adjustment'']"
  then consider "str_lower s = ''compute''" | "str_lower s = ''storage''"
    | "str_lower s = ''adjustment''"
    by auto
  then show "str_capitalize (str_lower s) \<in> set valid_usage_types"
    by cases (simp_all add: valid_usage_types_def str_capitalize_def char_tables)
qed

text \<open>An ASCII string stays ASCII when it is put in lower case.\<close>

lemma lower_char_ascii: "of_char c < (128::nat) \<Longrightarrow> of_char (lower_char c) < (128::nat)"
  by (simp add: char_tables)

lemma str_lower_ascii: "is_ascii s \<Longrightarrow> is_ascii (str_lower s)"
  by (induction s) (simp_all add: is_ascii_def str_lower_def lower_char_ascii)

text \<open>
  C7. Whatever \<^verbatim>\<open>str.lower\<close> and \<^verbatim>\<open>str.capitalize\<close> do, a string whose normal form
  (lower case, then capitalised) is not one of \<^verbatim>\<open>Compute\<close>, \<^verbatim>\<open>Storage\<close>,
  \<^verbatim>\<open>Adjustment\<close> makes the constructor raise the module's own exception,
  \<^verbatim>\<open>UsageMessageException\<close>, with the normal form in its message, and a string whose
  normal form is one of the three gives a message. When the two builtins act on ASCII
  strings as the tables above say, an ASCII string is accepted exactly when its lower-case
  form is \<^verbatim>\<open>compute\<close>, \<^verbatim>\<open>storage\<close> or \<^verbatim>\<open>adjustment\<close>.
\<close>

theorem usage_type_validated:
  "(capitalize (lower s) \<in> set valid_usage_types \<longrightarrow>
      UsageMessage_init_with lower capitalize (PStr s) recs
        = Inr \<lparr> records = Some recs, usage_type = None \<rparr>)
   \<and> (capitalize (lower s) \<notin> set valid_usage_types \<longrightarrow>
      UsageMessage_init_with lower capitalize (PStr s) recs
        = Inl (UsageMessageException (''Invalid usage type '' @ capitalize (lower s))))
   \<and> (is_ascii s
        \<and> (\<forall>t. is_ascii t \<longrightarrow> lower t = str_lower t \<and> capitalize t = str_capitalize t) \<longrightarrow>
      ((\<exists>m. UsageMessage_init_with lower capitalize (PStr s) recs = Inr m)
         \<longleftrightarrow> str_lower s \<in> set [''compute'', ''storage'', ''adjustment'']))"
proof (intro conjI impI)
  assume "capitalize (lower s) \<in> set valid_usage_types"
  then show "UsageMessage_init_with lower capitalize (PStr s) recs
        = Inr \<lparr> records = Some recs, usage_type = None \<rparr>"
    by (simp add: UsageMessage_init_with_def Let_def)
next
  assume "capitalize (lower s) \<notin> set valid_usage_types"
  then show "UsageMessage_init_with lower capitalize (PStr s) recs
        = Inl (UsageMessageException (''Invalid usage type '' @ capitalize (lower s)))"
    by (simp add: UsageMessage_init_with_def Let_def)
next
  assume h: "is_ascii s
        \<and> (\<forall>t. is_ascii t \<longrightarrow> lower t = str_lower t \<and> capitalize t = str_capitalize t)"
  then have l: "lower s = str_lower s" by simp
  from h have "is_ascii (str_lower s)" by (simp add: str_lower_ascii)
  with h have c: "capitalize (str_lower s) = str_capitalize (str_lower s)" by simp
  have "(\<exists>m. UsageMessage_init_with lower capitalize (PStr s) recs = Inr m)
          \<longleftrightarrow> str_capitalize (str_lower s) \<in> set valid_usage_types"
    by (simp add: UsageMessage_init_with_def Let_def l c)
  then show "(\<exists>m. UsageMessage_init_with lower capitalize (PStr s) recs = Inr m)
         \<longleftrightarrow> str_lower s \<in> set [''compute'', ''storage'', ''adjustment'']"
    using normalized_valid_iff [of s] by simp
qed

text \<open>
  The witness takes the ASCII tables for the two builtins: \<^verbatim>\<open>Bogus\<close> is refused,
  \<^verbatim>\<open>sTORAGE\<close> is accepted, and \<^verbatim>\<open>sTORAGE\<close> is an ASCII string whose lower-case form is
  one of the three.
\<close>

theorem usage_type_validated_witness:
  "UsageMessage_init_with str_lower str_capitalize (PStr ''Bogus'') []
     = Inl (UsageMessageException ''Invalid usage type Bogus'')
   \<and> UsageMessage_init_with str_lower str_capitalize (PStr ''sTORAGE'') []
     = Inr \<lparr> records = Some [], usage_type = None \<rparr>
   \<and> is_ascii ''sTORAGE''
   \<and> str_lower ''sTORAGE'' \<in> set [''compute'', ''storage'', ''adjustment'']
   \<and> (\<exists>m. UsageMessage_init_with str_lower str_capitalize (PStr ''sTORAGE'') [] = Inr m)"
proof -
  have b: "str_lower ''Bogus'' = ''bogus''" "str_capitalize ''bogus'' = ''Bogus''"
    by (simp_all add: str_capitalize_def str_lower_def char_tables)
  have s: "str_lower ''sTORAGE'' = ''storage''" "str_capitalize ''storage'' = ''Storage''"
    by (simp_all add: str_capitalize_def str_lower_def char_tables)
  have a: "is_ascii ''sTORAGE''"
    by (simp add: is_ascii_def)
  show ?thesis
    using usage_type_validated [of str_capitalize str_lower "''Bogus''" "[]"]
      usage_type_validated [of str_capitalize str_lower "''sTORAGE''" "[]"]
    by (simp add: a b s valid_usage_types_def)
qed

section \<open>Missing keys\<close>

lemma dict_get_total: "\<exists>v. dict_get (PDict kvs) k = Inr v"
  by (cases "map_of kvs k") simp_all

text \<open>Either every subscripted top-level key is there, or one of them is the \<^verbatim>\<open>KeyError\<close>.\<close>

lemma from_dict_first_missing:
  "(\<forall>k \<in> set required_keys. map_of kvs k \<noteq> None)
   \<or> (\<exists>k' \<in> set required_keys. ComputeUsageRecord_from_dict (PDict kvs) = Inl (KeyError k'))"
  by (simp add: required_keys_def ComputeUsageRecord_from_dict_def split: option.splits)

lemma from_dict_top_present:
  assumes "\<forall>k \<in> set required_keys. map_of kvs k \<noteq> None"
    and "map_of kvs ''Attributes'' = Some (PDict a)"
  shows "(map_of a ''NodeCount'' = None \<and>
            ComputeUsageRecord_from_dict (PDict kvs) = Inl (KeyError ''NodeCount''))
       \<or> (map_of a ''NodeCount'' \<noteq> None \<and>
            (\<exists>r. ComputeUsageRecord_from_dict (PDict kvs) = Inr r))"
proof -
  from assms(1) obtain u lp lr rs sb st e ch where top:
    "map_of kvs ''Username'' = Some u" "map_of kvs ''LocalProjectID'' = Some lp"
    "map_of kvs ''LocalRecordID'' = Some lr" "map_of kvs ''Resource'' = Some rs"
    "map_of kvs ''SubmitTime'' = Some sb" "map_of kvs ''StartTime'' = Some st"
    "map_of kvs ''EndTime'' = Some e" "map_of kvs ''Charge'' = Some ch"
    by (auto simp: required_keys_def)
  obtain c j m q p where opt:
    "dict_get (PDict a) ''CpuCoreCount'' = Inr c" "dict_get (PDict a) ''JobName'' = Inr j"
    "dict_get (PDict a) ''Memory'' = Inr m" "dict_get (PDict a) ''Queue'' = Inr q"
    "dict_get (PDict kvs) ''ParentRecordID'' = Inr p"
    using dict_get_total by metis
  show ?thesis
  proof (cases "map_of a ''NodeCount''")
    case None
    then show ?thesis
      by (simp add: ComputeUsageRecord_from_dict_def top assms(2) del: dict_get.simps)
  next
    case (Some n)
    then show ?thesis
      by (simp add: ComputeUsageRecord_from_dict_def top assms(2) opt del: dict_get.simps)
  qed
qed

text \<open>
  C8. An input dictionary that lacks one of the subscripted top-level keys, or whose
  \<^verbatim>\<open>Attributes\<close> dictionary lacks \<^verbatim>\<open>NodeCount\<close>, makes \<open>from_dict\<close> return a
  \<^verbatim>\<open>KeyError\<close>. When the required keys are all there, \<open>from_dict\<close> returns a record,
  whether or not \<^verbatim>\<open>CpuCoreCount\<close>, \<^verbatim>\<open>JobName\<close>, \<^verbatim>\<open>Memory\<close>, \<^verbatim>\<open>Queue\<close> and
  \<^verbatim>\<open>ParentRecordID\<close> are.
\<close>

theorem from_dict_missing_key:
  "(k \<in> set required_keys \<and> map_of kvs k = None \<longrightarrow>
      (\<exists>k'. ComputeUsageRecord_from_dict (PDict kvs) = Inl (KeyError k')))
   \<and> (map_of kvs ''Attributes'' = Some (PDict a) \<and> map_of a ''NodeCount'' = None \<longrightarrow>
      (\<exists>k'. ComputeUsageRecord_from_dict (PDict kvs) = Inl (KeyError k')))
   \<and> ((\<forall>k \<in> set required_keys. map_of kvs k \<noteq> None)
        \<and> map_of kvs ''Attributes'' = Some (PDict a) \<and> map_of a ''NodeCount'' \<noteq> None \<longrightarrow>
      (\<exists>r. ComputeUsageRecord_from_dict (PDict kvs) = Inr r))"
proof (intro conjI impI)
  assume "k \<in> set required_keys \<and> map_of kvs k = None"
  with from_dict_first_missing [of kvs]
  show "\<exists>k'. ComputeUsageRecord_from_dict (PDict kvs) = Inl (KeyError k')"
    by blast
next
  assume b: "map_of kvs ''Attributes'' = Some (PDict a) \<and> map_of a ''NodeCount'' = None"
  show "\<exists>k'. ComputeUsageRecord_from_dict (PDict kvs) = Inl (KeyError k')"
  proof (cases "\<forall>k \<in> set required_keys. map_of kvs k \<noteq> None")
    case True
    from from_dict_top_present [OF True] b show ?thesis by auto
  next
    case False
    with from_dict_first_missing [of kvs] show ?thesis by blast
  qed
next
  assume c: "(\<forall>k \<in> set required_keys. map_of kvs k \<noteq> None)
        \<and> map_of kvs ''Attributes'' = Some (PDict a) \<and> map_of a ''NodeCount'' \<noteq> None"
  then have "\<forall>k \<in> set required_keys. map_of kvs k \<noteq> None"
    and "map_of kvs ''Attributes'' = Some (PDict a)" by simp_all
  from from_dict_top_present [OF this] c
  show "\<exists>r. ComputeUsageRecord_from_dict (PDict kvs) = Inr r"
    by auto
qed

text \<open>
  The witness: a dictionary without \<^verbatim>\<open>Charge\<close>, one whose attributes have no
  \<^verbatim>\<open>NodeCount\<close>, and one with the required keys only.
\<close>

theorem from_dict_missing_key_witness:
  "(\<exists>k'. ComputeUsageRecord_from_dict
      (PDict [(''Username'', PStr ''alice''), (''LocalProjectID'', PStr ''P1''),
        (''LocalRecordID'', PStr ''42''), (''Resource'', PStr ''cluster''),
        (''SubmitTime'', PStr ''t0''), (''StartTime'', PStr ''t1''),
        (''EndTime'', PStr ''t2''),
        (''Attributes'', PDict [(''NodeCount'', PStr ''4'')])]) = Inl (KeyError k'))
   \<and> (\<exists>k'. ComputeUsageRecord_from_dict
      (PDict [(''Username'', PStr ''alice''), (''LocalProjectID'', PStr ''P1''),
        (''LocalRecordID'', PStr ''42''), (''Resource'', PStr ''cluster''),
        (''SubmitTime'', PStr ''t0''), (''StartTime'', PStr ''t1''),
        (''EndTime'', PStr ''t2''), (''Charge'', PStr ''10''),
        (''Attributes'', PDict [(''Queue'', PStr ''normal'')])]) = Inl (KeyError k'))
   \<and> (\<exists>r. ComputeUsageRecord_from_dict
      (PDict [(''Username'', PStr ''alice''), (''LocalProjectID'', PStr ''P1''),
        (''LocalRecordID'', PStr ''42''), (''Resource'', PStr ''cluster''),
        (''SubmitTime'', PStr ''t0''), (''StartTime'', PStr ''t1''),
        (''EndTime'', PStr ''t2''), (''Charge'', PStr ''10''),
        (''Attributes'', PDict [(''NodeCount'', PStr ''4'')])]) = Inr r)"
proof (intro conjI)
  show "\<exists>k'. ComputeUsageRecord_from_dict
      (PDict [(''Username'', PStr ''alice''), (''LocalProjectID'', PStr ''P1''),
        (''LocalRecordID'', PStr ''42''), (''Resource'', PStr ''cluster''),
        (''SubmitTime'', PStr ''t0''), (''StartTime'', PStr ''t1''),
        (''EndTime'', PStr ''t2''),
        (''Attributes'', PDict [(''NodeCount'', PStr ''4'')])]) = Inl (KeyError k')"
    using from_dict_missing_key [of "''Charge''"
       "[(''Username'', PStr ''alice''), (''LocalProjectID'', PStr ''P1''),
        (''LocalRecordID'', PStr ''42''), (''Resource'', PStr ''cluster''),
        (''SubmitTime'', PStr ''t0''), (''StartTime'', PStr ''t1''),
        (''EndTime'', PStr ''t2''),
        (''Attributes'', PDict [(''NodeCount'', PStr ''4'')])]" "[]"]
    by (simp add: required_keys_def)
next
  show "\<exists>k'. ComputeUsageRecord_from_dict
      (PDict [(''Username'', PStr ''alice''), (''LocalProjectID'', PStr ''P1''),
        (''LocalRecordID'', PStr ''42''), (''Resource'', PStr ''cluster''),
        (''SubmitTime'', PStr ''t0''), (''StartTime'', PStr ''t1''),
        (''EndTime'', PStr ''t2''), (''Charge'', PStr ''10''),
        (''Attributes'', PDict [(''Queue'', PStr ''normal'')])]) = Inl (KeyError k')"
    using from_dict_missing_key [of "''Charge''"
       "[(''Username'', PStr ''alice''), (''LocalProjectID'', PStr ''P1''),
        (''LocalRecordID'', PStr ''42''), (''Resource'', PStr ''cluster''),
        (''SubmitTime'', PStr ''t0''), (''StartTime'', PStr ''t1''),
        (''EndTime'', PStr ''t2''), (''Charge'', PStr ''10''),
        (''Attributes'', PDict [(''Queue'', PStr ''normal'')])]" "[(''Queue'', PStr ''normal'')]"]
    by (simp add: required_keys_def)
next
  show "\<exists>r. ComputeUsageRecord_from_dict
      (PDict [(''Username'', PStr ''alice''), (''LocalProjectID'', PStr ''P1''),
        (''LocalRecordID'', PStr ''42''), (''Resource'', PStr ''cluster''),
        (''SubmitTime'', PStr ''t0''), (''StartTime'', PStr ''t1''),
        (''EndTime'', PStr ''t2''), (''Charge'', PStr ''10''),
        (''Attributes'', PDict [(''NodeCount'', PStr ''4'')])]) = Inr r"
    using from_dict_missing_key [of "''Charge''"
       "[(''Username'', PStr ''alice''), (''LocalProjectID'', PStr ''P1''),
        (''LocalRecordID'', PStr ''42''), (''Resource'', PStr ''cluster''),
        (''SubmitTime'', PStr ''t0''), (''StartTime'', PStr ''t1''),
        (''EndTime'', PStr ''t2''), (''Charge'', PStr ''10''),
        (''Attributes'', PDict [(''NodeCount'', PStr ''4'')])]" "[(''NodeCount'', PStr ''4'')]"]
    by (simp add: required_keys_def)
qed

end
